theory Spec2Isabelle
  imports Complex_Main "HOL-Library.Dlist" "HOL-Library.AList"
begin

section \<open>Loss-chain analyzer: data model\<close>

text \<open>
  The development embeds \<^verbatim>\<open>loss_chain_analyzer.py\<close>. Python floats are read as
  real numbers, Python's unbounded integers as \<open>int\<close>, and lengths as \<open>nat\<close>. A Python
  \<^verbatim>\<open>set\<close> of names is a duplicate-free list (\<open>string dlist\<close>): the list is the
  order in which the set is iterated, and the statements below are about all such orders
  of the stored sets. A \<^verbatim>\<open>dict\<close> that the code iterates is an association list
  in insertion order; the two graphs, which are only looked up, are maps.
\<close>

record MatchResult =
  winner :: string
  winner_country :: string
  loser :: string
  loser_country :: string
  score :: "string option"
  event :: "string option"
  category :: "string option"
  round :: "string option"
  date :: "string option"

record AthleteRecord =
  name :: string
  country :: string
  wins :: "MatchResult list"
  losses :: "MatchResult list"

definition total_matches :: "AthleteRecord \<Rightarrow> nat" where
  "total_matches r = length (wins r) + length (losses r)"

definition win_rate :: "AthleteRecord \<Rightarrow> real" where
  "win_rate r =
     (let total = length (wins r) + length (losses r)
      in if total > 0 then real (length (wins r)) / real total else 0)"

subsection \<open>Python values and helpers\<close>

datatype py_error = ValueError | AttributeError

text \<open>\<^verbatim>\<open>d.get(key, default)\<close> on a JSON object whose key may be absent (\<open>None\<close>).\<close>

definition dict_get :: "'a option \<Rightarrow> 'a \<Rightarrow> 'a" where
  "dict_get v d = (case v of None \<Rightarrow> d | Some x \<Rightarrow> x)"

text \<open>Truth value of an optional string: \<^verbatim>\<open>None\<close> and the empty string are false.\<close>

definition truthy :: "string option \<Rightarrow> bool" where
  "truthy v = (case v of None \<Rightarrow> False | Some s \<Rightarrow> s \<noteq> [])"

text \<open>\<^verbatim>\<open>s.split(c)\<close> for a separator of one character.\<close>

fun split_on :: "char \<Rightarrow> string \<Rightarrow> string list" where
  "split_on c [] = [[]]"
| "split_on c (x # xs) =
     (if x = c then [] # split_on c xs
      else (case split_on c xs of [] \<Rightarrow> [[x]] | p # ps \<Rightarrow> (x # p) # ps))"

text \<open>
  \<^verbatim>\<open>int(s)\<close> on a string, base 10, for ASCII text: surrounding white space is
  stripped, one sign is allowed, and the digits may be grouped by single underscores.
  Any other text raises \<^verbatim>\<open>ValueError\<close>. (The limit of recent interpreters on the
  number of digits is not part of the model.)
\<close>

definition is_space :: "char \<Rightarrow> bool" where
  "is_space c \<longleftrightarrow> c \<in> set [CHR 0x09, CHR 0x0A, CHR 0x0B, CHR 0x0C, CHR 0x0D,
                           CHR 0x1C, CHR 0x1D, CHR 0x1E, CHR 0x1F, CHR 0x20]"

definition strip :: "string \<Rightarrow> string" where
  "strip s = rev (dropWhile is_space (rev (dropWhile is_space s)))"

definition is_digit :: "char \<Rightarrow> bool" where
  "is_digit c \<longleftrightarrow> c \<in> set ''0123456789''"

definition digit_val :: "char \<Rightarrow> nat" where
  "digit_val c = length (takeWhile (\<lambda>d. d \<noteq> c) ''0123456789'')"

fun digits_ok :: "string \<Rightarrow> bool" where
  "digits_ok [] = False"
| "digits_ok [c] = is_digit c"
| "digits_ok (c # d # cs) =
     (is_digit c \<and> (if d = CHR ''_'' then digits_ok cs else digits_ok (d # cs)))"

definition digits_value :: "string \<Rightarrow> nat" where
  "digits_value s = foldl (\<lambda>a c. 10 * a + digit_val c) 0 (filter (\<lambda>c. c \<noteq> CHR ''_'') s)"

definition py_int :: "string \<Rightarrow> py_error + int" where
  "py_int s =
     (let t = strip s;
          (sgn, body) = (case t of
                           [] \<Rightarrow> (1, [])
                         | c # r \<Rightarrow> if c = CHR ''+'' then (1, r)
                                    else if c = CHR ''-'' then (- 1, r) else (1, t))
      in if digits_ok body then Inr (sgn * int (digits_value body)) else Inl ValueError)"

text \<open>\<^verbatim>\<open>str(n)\<close> for an integer.\<close>

fun str_nat :: "nat \<Rightarrow> string" where
  "str_nat n =
     (if n < 10 then [''0123456789'' ! n]
      else str_nat (n div 10) @ [''0123456789'' ! (n mod 10)])"

declare str_nat.simps [simp del]

definition str_int :: "int \<Rightarrow> string" where
  "str_int i = (if i < 0 then CHR ''-'' # str_nat (nat (- i)) else str_nat (nat i))"

text \<open>\<^verbatim>\<open>s.upper()\<close> and \<^verbatim>\<open>s.lower()\<close> on ASCII text, and \<^verbatim>\<open>a in b\<close> on strings.\<close>

definition upper_char :: "char \<Rightarrow> char" where
  "upper_char c =
     (case map_of (zip ''abcdefghijklmnopqrstuvwxyz'' ''ABCDEFGHIJKLMNOPQRSTUVWXYZ'') c of
        None \<Rightarrow> c | Some u \<Rightarrow> u)"

definition lower_char :: "char \<Rightarrow> char" where
  "lower_char c =
     (case map_of (zip ''ABCDEFGHIJKLMNOPQRSTUVWXYZ'' ''abcdefghijklmnopqrstuvwxyz'') c of
        None \<Rightarrow> c | Some l \<Rightarrow> l)"

definition upper :: "string \<Rightarrow> string" where
  "upper s = map upper_char s"

definition lower :: "string \<Rightarrow> string" where
  "lower s = map lower_char s"

fun is_prefix :: "string \<Rightarrow> string \<Rightarrow> bool" where
  "is_prefix [] ys = True"
| "is_prefix (x # xs) [] = False"
| "is_prefix (x # xs) (y # ys) = (x = y \<and> is_prefix xs ys)"

fun str_in :: "string \<Rightarrow> string \<Rightarrow> bool" where
  "str_in a [] = (a = [])"
| "str_in a (y # ys) = (is_prefix a (y # ys) \<or> str_in a ys)"


text \<open>Python's slice \<^verbatim>\<open>xs[-k:]\<close> for a positive literal \<open>k\<close>: the last \<open>k\<close> elements.\<close>

definition last_n :: "nat \<Rightarrow> 'a list \<Rightarrow> 'a list" where
  "last_n k xs = drop (length xs - k) xs"

text \<open>Sets of names: intersection and union, and \<^verbatim>\<open>g.get(key, default)\<close> on a graph.\<close>

definition set_inter :: "'a dlist \<Rightarrow> 'a dlist \<Rightarrow> 'a dlist" where
  "set_inter a b = Dlist.filter (Dlist.member b) a"

definition set_union :: "'a dlist \<Rightarrow> 'a dlist \<Rightarrow> 'a dlist" where
  "set_union a b = foldl (\<lambda>acc x. Dlist.insert x acc) a (list_of_dlist b)"

definition dd_get :: "('k \<rightharpoonup> 'v) \<Rightarrow> 'k \<Rightarrow> 'v \<Rightarrow> 'v" where
  "dd_get g k d = (case g k of None \<Rightarrow> d | Some v \<Rightarrow> v)"

text \<open>
  \<^verbatim>\<open>g[key].add(x)\<close> on a \<^verbatim>\<open>defaultdict(set)\<close>: a missing key is created
  with the empty set first.
\<close>

definition graph_add :: "('k \<rightharpoonup> 'a dlist) \<Rightarrow> 'k \<Rightarrow> 'a \<Rightarrow> ('k \<rightharpoonup> 'a dlist)" where
  "graph_add g k x = g(k \<mapsto> Dlist.insert x (case g k of None \<Rightarrow> Dlist.empty | Some s \<Rightarrow> s))"

subsection \<open>The analyzer and the ingestion of matches\<close>

record LossChainAnalyzer =
  matches :: "MatchResult list"
  athlete_records :: "(string \<times> AthleteRecord) list"
  loss_graph :: "string \<rightharpoonup> string dlist"
  win_graph :: "string \<rightharpoonup> string dlist"

definition init :: LossChainAnalyzer where
  "init = \<lparr>matches = [], athlete_records = [], loss_graph = Map.empty, win_graph = Map.empty\<rparr>"

definition new_record :: "string \<Rightarrow> string \<Rightarrow> AthleteRecord" where
  "new_record n c = \<lparr>name = n, country = c, wins = [], losses = []\<rparr>"

definition update_records :: "LossChainAnalyzer \<Rightarrow> MatchResult \<Rightarrow> LossChainAnalyzer" where
  "update_records self m =
     (let recs0 = athlete_records self;
          recs1 = (if map_of recs0 (winner m) = None
                   then recs0 @ [(winner m, new_record (winner m) (winner_country m))]
                   else recs0);
          recs2 = AList.map_entry (winner m) (\<lambda>r. r\<lparr>wins := wins r @ [m]\<rparr>) recs1;
          recs3 = (if map_of recs2 (loser m) = None
                   then recs2 @ [(loser m, new_record (loser m) (loser_country m))]
                   else recs2);
          recs4 = AList.map_entry (loser m) (\<lambda>r. r\<lparr>losses := losses r @ [m]\<rparr>) recs3
      in self\<lparr>athlete_records := recs4,
              loss_graph := graph_add (loss_graph self) (loser m) (winner m),
              win_graph := graph_add (win_graph self) (winner m) (loser m)\<rparr>)"

text \<open>
  The feed, as \<^verbatim>\<open>json.load\<close> returns it. For a name, a country, a round and the
  winner, \<open>None\<close> is a key that is absent (for the winner and the names also one that is
  \<^verbatim>\<open>null\<close>: the code only tests them for truth); a list is absent or present. A
  score is absent, an integer, a string or \<^verbatim>\<open>null\<close>. A corner is absent, an
  object, or \<^verbatim>\<open>null\<close>, which is how the bracket parser of the repository writes
  the empty side of a bye.
\<close>

datatype json_score = JInt int | JStr string | JNull

definition str_score :: "json_score \<Rightarrow> string" where
  "str_score v = (case v of JInt i \<Rightarrow> str_int i | JStr s \<Rightarrow> s | JNull \<Rightarrow> ''None'')"

record corner =
  corner_name :: "string option"
  corner_country :: "string option"
  corner_score :: "json_score option"

datatype corner_field = Absent | Null | Object corner

record match_entry =
  entry_round :: "string option"
  red_corner :: corner_field
  blue_corner :: corner_field
  entry_winner :: "string option"

record category_entry =
  category_name :: "string option"
  category_matches :: "match_entry list option"

record event_entry =
  event_name :: "string option"
  event_categories :: "category_entry list option"

record feed =
  events :: "event_entry list option"

definition empty_corner :: corner where
  "empty_corner = \<lparr>corner_name = None, corner_country = None, corner_score = None\<rparr>"

text \<open>
  \<^verbatim>\<open>match.get('red_corner', {})\<close>: the default stands in for an absent key only; a
  \<^verbatim>\<open>null\<close> comes back as Python's \<^verbatim>\<open>None\<close>, here \<open>None\<close>.
\<close>

definition get_corner :: "corner_field \<Rightarrow> corner option" where
  "get_corner f = (case f of Absent \<Rightarrow> Some empty_corner | Null \<Rightarrow> None | Object c \<Rightarrow> Some c)"

text \<open>
  The match result that the innermost loop of \<^verbatim>\<open>load_matches\<close> builds from an
  entry that is not skipped and its two corners: the loser is the blue corner when the
  winner is the red corner's name, and the red corner in every other case.
\<close>

definition match_result :: "string \<Rightarrow> string \<Rightarrow> corner \<Rightarrow> corner \<Rightarrow> match_entry \<Rightarrow> MatchResult" where
  "match_result ev_name cat_name red blue match =
     (let winner = dict_get (entry_winner match) '''';
          (loser, loser_country, winner_country) =
             (if Some winner = corner_name red
              then (dict_get (corner_name blue) '''', dict_get (corner_country blue) '''',
                    dict_get (corner_country red) '''')
              else (dict_get (corner_name red) '''', dict_get (corner_country red) '''',
                    dict_get (corner_country blue) ''''))
      in \<lparr>winner = winner, winner_country = winner_country,
          loser = loser, loser_country = loser_country,
          score = Some (str_score (dict_get (corner_score red) (JInt 0)) @ ''-'' @
                        str_score (dict_get (corner_score blue) (JInt 0))),
          event = Some ev_name, category = Some cat_name,
          round = Some (dict_get (entry_round match) ''Unknown''),
          date = None\<rparr>)"

text \<open>\<^verbatim>\<open>self.matches.append(result); self._update_records(result)\<close>.\<close>

definition accept_result :: "LossChainAnalyzer \<Rightarrow> MatchResult \<Rightarrow> LossChainAnalyzer" where
  "accept_result self result = update_records (self\<lparr>matches := matches self @ [result]\<rparr>) result"

text \<open>
  The body of the innermost loop, on the pair of the counter and the analyzer. The test
  \<^verbatim>\<open>not winner or not red.get('name') or not blue.get('name')\<close> is evaluated from
  the left and stops at the first true part; \<^verbatim>\<open>.get\<close> on \<^verbatim>\<open>None\<close> raises
  \<^verbatim>\<open>AttributeError\<close>. \<^verbatim>\<open>continue\<close> leaves counter and analyzer as they are.
\<close>

definition load_match ::
  "string \<Rightarrow> string \<Rightarrow> nat \<times> LossChainAnalyzer \<Rightarrow> match_entry
   \<Rightarrow> py_error + nat \<times> LossChainAnalyzer" where
  "load_match ev_name cat_name st match =
     (let (count, self) = st;
          red = get_corner (red_corner match);
          blue = get_corner (blue_corner match);
          winner = dict_get (entry_winner match) ''''
      in if winner = [] then Inr (count, self)
         else (case red of
                 None \<Rightarrow> Inl AttributeError
               | Some r \<Rightarrow>
                   if \<not> truthy (corner_name r) then Inr (count, self)
                   else (case blue of
                           None \<Rightarrow> Inl AttributeError
                         | Some b \<Rightarrow>
                             if \<not> truthy (corner_name b) then Inr (count, self)
                             else Inr (count + 1,
                                       accept_result self
                                         (match_result ev_name cat_name r b match)))))"

text \<open>A \<^verbatim>\<open>for\<close> loop whose body may raise: the first exception ends the loop.\<close>

fun for_loop :: "('s \<Rightarrow> 'a \<Rightarrow> py_error + 's) \<Rightarrow> 's \<Rightarrow> 'a list \<Rightarrow> py_error + 's" where
  "for_loop body st [] = Inr st"
| "for_loop body st (x # xs) =
     (case body st x of Inl e \<Rightarrow> Inl e | Inr st' \<Rightarrow> for_loop body st' xs)"

definition load_category ::
  "string \<Rightarrow> nat \<times> LossChainAnalyzer \<Rightarrow> category_entry \<Rightarrow> py_error + nat \<times> LossChainAnalyzer" where
  "load_category ev_name st cat =
     for_loop (load_match ev_name (dict_get (category_name cat) ''''))
       st (dict_get (category_matches cat) [])"

definition load_event ::
  "nat \<times> LossChainAnalyzer \<Rightarrow> event_entry \<Rightarrow> py_error + nat \<times> LossChainAnalyzer" where
  "load_event st ev =
     for_loop (load_category (dict_get (event_name ev) '''')) st
       (dict_get (event_categories ev) [])"

text \<open>
  \<^verbatim>\<open>load_matches\<close>: the argument is \<open>None\<close> when the file does not exist, and the
  parsed feed otherwise. The result is the returned count and the analyzer afterwards,
  or the exception that ended the call.
\<close>

definition load_matches ::
  "LossChainAnalyzer \<Rightarrow> feed option \<Rightarrow> py_error + nat \<times> LossChainAnalyzer" where
  "load_matches self file =
     (case file of
        None \<Rightarrow> Inr (0, self)
      | Some data \<Rightarrow> for_loop load_event (0, self) (dict_get (events data) []))"

subsection \<open>Queries\<close>

definition SAUDI_CODES :: "string list" where
  "SAUDI_CODES = [''KSA'', ''SAU'', ''SAUDI'']"

definition ASIAN_COUNTRIES :: "string list" where
  "ASIAN_COUNTRIES =
     [''KSA'', ''SAU'', ''UAE'', ''KAZ'', ''UZB'', ''JPN'', ''KOR'', ''CHN'', ''MNG'', ''MGL'',
      ''THA'', ''VIE'', ''INA'', ''MAS'', ''SGP'', ''PHI'', ''IND'', ''PAK'', ''IRN'', ''IRI'',
      ''JOR'', ''KUW'', ''BRN'', ''QAT'', ''OMA'', ''YEM'', ''SYR'', ''LBN'', ''IRQ'']"

text \<open>
  \<^verbatim>\<open>sorted(xs, key=lambda x: -x.total_matches)\<close>: Python's sort is stable, and so is
  \<open>sort_key\<close>, so the two return the same list.
\<close>

definition sort_by_activity :: "AthleteRecord list \<Rightarrow> AthleteRecord list" where
  "sort_by_activity xs = sort_key (\<lambda>x. - int (total_matches x)) xs"

definition get_saudi_athletes :: "LossChainAnalyzer \<Rightarrow> AthleteRecord list" where
  "get_saudi_athletes self =
     sort_by_activity
       (filter (\<lambda>record. upper (country record) \<in> set SAUDI_CODES)
          (map snd (athlete_records self)))"

text \<open>
  \<^verbatim>\<open>_athlete_in_category\<close>: the loop returns at the first match of the athlete in
  the category; a match of the athlete without a category raises, since \<^verbatim>\<open>None\<close>
  has no \<^verbatim>\<open>lower\<close>.
\<close>

fun in_category_loop :: "MatchResult list \<Rightarrow> string \<Rightarrow> string \<Rightarrow> py_error + bool" where
  "in_category_loop [] athlete_name cat = Inr False"
| "in_category_loop (m # ms) athlete_name cat =
     (if winner m = athlete_name \<or> loser m = athlete_name
      then (case category m of
              None \<Rightarrow> Inl AttributeError
            | Some c \<Rightarrow> if str_in (lower cat) (lower c) then Inr True
                        else in_category_loop ms athlete_name cat)
      else in_category_loop ms athlete_name cat)"

definition athlete_in_category :: "LossChainAnalyzer \<Rightarrow> string \<Rightarrow> string \<Rightarrow> py_error + bool" where
  "athlete_in_category self athlete_name cat = in_category_loop (matches self) athlete_name cat"

fun asian_opponents_loop ::
  "LossChainAnalyzer \<Rightarrow> string option \<Rightarrow> (string \<times> AthleteRecord) list \<Rightarrow> AthleteRecord list
   \<Rightarrow> py_error + AthleteRecord list" where
  "asian_opponents_loop self cat [] opponents = Inr opponents"
| "asian_opponents_loop self cat ((n, record) # items) opponents =
     (if upper (country record) \<in> set ASIAN_COUNTRIES \<and> upper (country record) \<notin> set SAUDI_CODES
      then (case cat of
              None \<Rightarrow> asian_opponents_loop self cat items (opponents @ [record])
            | Some c \<Rightarrow>
                (case athlete_in_category self n c of
                   Inl e \<Rightarrow> Inl e
                 | Inr True \<Rightarrow> asian_opponents_loop self cat items (opponents @ [record])
                 | Inr False \<Rightarrow> asian_opponents_loop self cat items opponents))
      else asian_opponents_loop self cat items opponents)"

definition get_asian_opponents ::
  "LossChainAnalyzer \<Rightarrow> string option \<Rightarrow> py_error + AthleteRecord list" where
  "get_asian_opponents self cat = asian_opponents_loop self cat (athlete_records self) []"

definition find_shared_opponents :: "LossChainAnalyzer \<Rightarrow> string \<Rightarrow> string \<Rightarrow> string list" where
  "find_shared_opponents self saudi_name opponent_name =
     (let saudi_faced = set_union (dd_get (win_graph self) saudi_name Dlist.empty)
                                  (dd_get (loss_graph self) saudi_name Dlist.empty);
          opp_faced = set_union (dd_get (win_graph self) opponent_name Dlist.empty)
                                (dd_get (loss_graph self) opponent_name Dlist.empty)
      in list_of_dlist (set_inter saudi_faced opp_faced))"

subsection \<open>Beatability\<close>

text \<open>
  A reasoning line is kept as the f-string that builds it together with the values it
  interpolates, in the order of the source:
  \<^item> \<open>LostTo l s\<close>: \<^verbatim>\<open>f"Lost to {l} - whom {s} has beaten"\<close>;
  \<^item> \<open>LowerWinRate o s\<close>: \<^verbatim>\<open>f"Lower win rate ({o:.0%} vs {s:.0%})"\<close>;
  \<^item> \<open>FormDeclining n\<close>: \<^verbatim>\<open>f"Recent form declining ({n} losses in recent matches)"\<close>;
  \<^item> \<open>LessExperienced o s\<close>: \<^verbatim>\<open>f"Less experienced ({o} vs {s} matches)"\<close>;
  \<^item> \<open>HasCloseLosses n\<close>: \<^verbatim>\<open>f"Has {n} close losses (competitive but beatable)"\<close>.
\<close>

datatype reasoning_line =
    LostTo string string
  | LowerWinRate real real
  | FormDeclining nat
  | LessExperienced nat nat
  | HasCloseLosses nat

record close_loss =
  close_to :: string
  close_score :: "string option"
  close_event :: "string option"

record key_loss =
  key_to :: string
  key_country :: string
  key_score :: "string option"
  key_event :: "string option"
  key_round :: "string option"

record ScoutingTarget =
  opponent_name :: string
  opponent_country :: string
  beatability_score :: real
  reasoning :: "reasoning_line list"
  key_losses :: "key_loss list"
  shared_opponents :: "string list"
  recent_form :: string
  world_rank :: "int option"

text \<open>
  The five numbered parts of \<^verbatim>\<open>calculate_beatability\<close>, each on the pair of the
  running score and the reasoning list.
\<close>

definition shared_losses_part ::
  "LossChainAnalyzer \<Rightarrow> AthleteRecord \<Rightarrow> AthleteRecord \<Rightarrow> real \<times> reasoning_line list
   \<Rightarrow> real \<times> reasoning_line list" where
  "shared_losses_part self saudi_record opponent_record acc =
     (let (score, reasoning) = acc;
          saudi_victims = dd_get (win_graph self) (name saudi_record) Dlist.empty;
          opponent_losses_to = dd_get (loss_graph self) (name opponent_record) Dlist.empty;
          shared_losses = set_inter saudi_victims opponent_losses_to
      in if \<not> Dlist.null shared_losses
         then (score + 0.3 * real (Dlist.length shared_losses),
               reasoning @ map (\<lambda>l. LostTo l (name saudi_record)) (list_of_dlist shared_losses))
         else (score, reasoning))"

definition win_rate_part ::
  "AthleteRecord \<Rightarrow> AthleteRecord \<Rightarrow> real \<times> reasoning_line list \<Rightarrow> real \<times> reasoning_line list" where
  "win_rate_part saudi_record opponent_record acc =
     (let (score, reasoning) = acc
      in if win_rate saudi_record > win_rate opponent_record
         then (let diff = win_rate saudi_record - win_rate opponent_record
               in (score + 0.2 * diff,
                   reasoning @ [LowerWinRate (win_rate opponent_record) (win_rate saudi_record)]))
         else (score, reasoning))"

definition recent_form_part ::
  "AthleteRecord \<Rightarrow> real \<times> reasoning_line list \<Rightarrow> (real \<times> reasoning_line list) \<times> string" where
  "recent_form_part opponent_record acc =
     (let (score, reasoning) = acc;
          recent_losses = (if length (losses opponent_record) \<ge> 3
                           then last_n 3 (losses opponent_record) else losses opponent_record);
          recent_wins = (if length (wins opponent_record) \<ge> 3
                         then last_n 3 (wins opponent_record) else wins opponent_record)
      in if length recent_losses > length recent_wins
         then ((score + 0.15, reasoning @ [FormDeclining (length recent_losses)]), ''declining'')
         else if length recent_wins > length recent_losses
         then ((score, reasoning), ''improving'')
         else ((score, reasoning), ''stable''))"

definition experience_part ::
  "AthleteRecord \<Rightarrow> AthleteRecord \<Rightarrow> real \<times> reasoning_line list \<Rightarrow> real \<times> reasoning_line list" where
  "experience_part saudi_record opponent_record acc =
     (let (score, reasoning) = acc
      in if total_matches saudi_record > total_matches opponent_record
         then (score + 0.1,
               reasoning @ [LessExperienced (total_matches opponent_record)
                                            (total_matches saudi_record)])
         else (score, reasoning))"

definition make_close_loss :: "MatchResult \<Rightarrow> close_loss" where
  "make_close_loss loss =
     \<lparr>close_to = winner loss, close_score = score loss, close_event = event loss\<rparr>"

text \<open>
  The body of the \<^verbatim>\<open>try\<close> for one loss with the score string \<open>s\<close>: the result is
  the list of close losses afterwards, or the exception raised.
\<close>

definition close_loss_try ::
  "MatchResult \<Rightarrow> string \<Rightarrow> close_loss list \<Rightarrow> py_error + close_loss list" where
  "close_loss_try loss s close_losses =
     (let parts = split_on (CHR ''-'') s
      in if length parts = 2
         then (case py_int (parts ! 0) of
                 Inl e \<Rightarrow> Inl e
               | Inr s1 \<Rightarrow>
                   (case py_int (parts ! 1) of
                      Inl e \<Rightarrow> Inl e
                    | Inr s2 \<Rightarrow>
                        (let diff = \<bar>s1 - s2\<bar>
                         in if diff \<le> 3
                            then Inr (close_losses @ [make_close_loss loss])
                            else Inr close_losses)))
         else Inr close_losses)"

text \<open>One round of the loop over the losses: \<^verbatim>\<open>except: pass\<close> keeps the list as it was.\<close>

definition close_loss_step :: "close_loss list \<Rightarrow> MatchResult \<Rightarrow> close_loss list" where
  "close_loss_step close_losses loss =
     (case score loss of
        None \<Rightarrow> close_losses
      | Some s \<Rightarrow>
          if s = [] then close_losses
          else (case close_loss_try loss s close_losses of
                  Inl e \<Rightarrow> close_losses
                | Inr close_losses' \<Rightarrow> close_losses'))"

definition close_losses_part ::
  "AthleteRecord \<Rightarrow> real \<times> reasoning_line list \<Rightarrow> real \<times> reasoning_line list" where
  "close_losses_part opponent_record acc =
     (let (score, reasoning) = acc;
          close_losses = foldl close_loss_step [] (losses opponent_record)
      in if close_losses \<noteq> []
         then (score + 0.1 * real (min (length close_losses) 3),
               reasoning @ [HasCloseLosses (length close_losses)])
         else (score, reasoning))"

definition make_key_loss :: "MatchResult \<Rightarrow> key_loss" where
  "make_key_loss loss =
     \<lparr>key_to = winner loss, key_country = winner_country loss, key_score = score loss,
      key_event = event loss, key_round = round loss\<rparr>"

text \<open>
  \<^verbatim>\<open>calculate_beatability\<close> is a method of the analyzer: the result is the scouting
  target together with the analyzer after the call.
\<close>

definition calculate_beatability ::
  "LossChainAnalyzer \<Rightarrow> AthleteRecord \<Rightarrow> AthleteRecord \<Rightarrow> ScoutingTarget \<times> LossChainAnalyzer" where
  "calculate_beatability self saudi_record opponent_record =
     (let acc1 = shared_losses_part self saudi_record opponent_record (0, []);
          acc2 = win_rate_part saudi_record opponent_record acc1;
          (acc3, form) = recent_form_part opponent_record acc2;
          acc4 = experience_part saudi_record opponent_record acc3;
          (score, reasoning) = close_losses_part opponent_record acc4;
          key_losses = map make_key_loss (last_n 5 (losses opponent_record));
          shared = find_shared_opponents self (name saudi_record) (name opponent_record)
      in (\<lparr>opponent_name = name opponent_record,
           opponent_country = country opponent_record,
           beatability_score = min score 1,
           reasoning = reasoning,
           key_losses = key_losses,
           shared_opponents = shared,
           recent_form = form,
           world_rank = None\<rparr>, self))"

subsection \<open>The scouting report\<close>

record athlete_report =
  saudi_athlete :: string
  report_country :: string
  total_wins :: nat
  total_losses :: nat
  report_win_rate :: real
  scouting_targets :: "ScoutingTarget list"

text \<open>The report without its time stamp, which is the clock's.\<close>

record scouting_report =
  total_matches_analyzed :: nat
  scouting_reports :: "athlete_report list"

definition analyze_opponents ::
  "LossChainAnalyzer \<Rightarrow> AthleteRecord \<Rightarrow> AthleteRecord list \<Rightarrow> ScoutingTarget list" where
  "analyze_opponents self saudi opponents =
     foldl (\<lambda>targets opp.
              if name opp = name saudi then targets
              else (let target = fst (calculate_beatability self saudi opp)
                    in if beatability_score target > 0 then targets @ [target] else targets))
       [] opponents"

definition report_for ::
  "LossChainAnalyzer \<Rightarrow> AthleteRecord list \<Rightarrow> AthleteRecord \<Rightarrow> athlete_report" where
  "report_for self opponents saudi =
     (let targets = analyze_opponents self saudi opponents;
          targets = sort_key (\<lambda>x. - beatability_score x) targets
      in \<lparr>saudi_athlete = name saudi, report_country = country saudi,
          total_wins = length (wins saudi), total_losses = length (losses saudi),
          report_win_rate = win_rate saudi,
          scouting_targets = take 10 targets\<rparr>)"

definition generate_scouting_report ::
  "LossChainAnalyzer \<Rightarrow> string option \<Rightarrow> string option \<Rightarrow> py_error + scouting_report" where
  "generate_scouting_report self saudi_name cat =
     (let report = \<lparr>total_matches_analyzed = length (matches self), scouting_reports = []\<rparr>;
          saudi_athletes =
            (if truthy saudi_name
             then filter (\<lambda>r. str_in (lower (dict_get saudi_name '''')) (lower (name r)))
                    (get_saudi_athletes self)
             else get_saudi_athletes self)
      in if saudi_athletes = [] then Inr report
         else (case get_asian_opponents self cat of
                 Inl e \<Rightarrow> Inl e
               | Inr opponents \<Rightarrow>
                   Inr (report\<lparr>scouting_reports := map (report_for self opponents) saudi_athletes\<rparr>)))"

subsection \<open>Category leaderboards\<close>






subsection \<open>The loss-chain trace\<close>

text \<open>
  The calls of \<^verbatim>\<open>print\<close>, in order. \<open>render\<close> gives the text of each:
  the heading, the message for an athlete without losses, the line above the beaters,
  one beater with the country, one beater of a beater with the country.
\<close>

datatype chain_line =
    Heading string
  | NoLosses string
  | LostToLine string
  | Beater string string
  | SecondBeater string string

definition render :: "chain_line \<Rightarrow> string" where
  "render l =
     (case l of
        Heading a \<Rightarrow> [CHR 0x0A] @ ''=== LOSS CHAIN: '' @ a @ '' ==='' @ [CHR 0x0A]
      | NoLosses a \<Rightarrow> ''  No recorded losses for '' @ a
      | LostToLine a \<Rightarrow> ''  '' @ a @ '' lost to:''
      | Beater b c \<Rightarrow> ''    -> '' @ b @ '' ('' @ c @ '')''
      | SecondBeater b c \<Rightarrow> ''        -> '' @ b @ '' ('' @ c @ '')'')"

definition country_of :: "LossChainAnalyzer \<Rightarrow> string \<Rightarrow> string" where
  "country_of self n =
     (case map_of (athlete_records self) n of None \<Rightarrow> ''???'' | Some record \<Rightarrow> country record)"

definition beater_lines :: "LossChainAnalyzer \<Rightarrow> int \<Rightarrow> string \<Rightarrow> chain_line list" where
  "beater_lines self depth beater =
     Beater beater (country_of self beater) #
     (if depth > 1
      then (let second_losses = dd_get (loss_graph self) beater Dlist.empty
            in map (\<lambda>second. SecondBeater second (country_of self second))
                 (take 3 (list_of_dlist second_losses)))
      else [])"

definition print_loss_chains :: "LossChainAnalyzer \<Rightarrow> string \<Rightarrow> int \<Rightarrow> chain_line list" where
  "print_loss_chains self athlete_name depth =
     (let losses_to = dd_get (loss_graph self) athlete_name Dlist.empty
      in if Dlist.null losses_to
         then [Heading athlete_name, NoLosses athlete_name]
         else [Heading athlete_name, LostToLine athlete_name] @
              concat (map (beater_lines self depth) (list_of_dlist losses_to)))"

subsection \<open>Notions of the specification\<close>

text \<open>The key \<open>k\<close> is in the graph and its set contains \<open>x\<close>.\<close>

definition has_edge :: "('k \<rightharpoonup> 'a dlist) \<Rightarrow> 'k \<Rightarrow> 'a \<Rightarrow> bool" where
  "has_edge g k x = (case g k of None \<Rightarrow> False | Some s \<Rightarrow> Dlist.member s x)"

definition edges_recorded :: "LossChainAnalyzer \<Rightarrow> MatchResult \<Rightarrow> bool" where
  "edges_recorded self m \<longleftrightarrow>
     has_edge (win_graph self) (winner m) (loser m) \<and>
     has_edge (loss_graph self) (loser m) (winner m)"

text \<open>
  An entry is complete when it declares a winner and both corners carry a name; an
  absent value, \<^verbatim>\<open>null\<close> and an empty string all count as missing.
\<close>

definition has_name :: "corner_field \<Rightarrow> bool" where
  "has_name f = (case f of Object c \<Rightarrow> truthy (corner_name c) | _ \<Rightarrow> False)"

definition complete_entry :: "match_entry \<Rightarrow> bool" where
  "complete_entry e \<longleftrightarrow> truthy (entry_winner e) \<and> has_name (red_corner e) \<and> has_name (blue_corner e)"

text \<open>
  An entry on which the loop body raises: it declares a winner, and its red corner is
  \<^verbatim>\<open>null\<close>, or its red corner has a name and its blue corner is \<^verbatim>\<open>null\<close>.
\<close>

definition entry_raises :: "match_entry \<Rightarrow> bool" where
  "entry_raises e \<longleftrightarrow>
     truthy (entry_winner e) \<and>
     (red_corner e = Null \<or> (has_name (red_corner e) \<and> blue_corner e = Null))"

definition corner_of :: "corner_field \<Rightarrow> corner" where
  "corner_of f = (case f of Object c \<Rightarrow> c | _ \<Rightarrow> empty_corner)"

definition entry_result :: "string \<Rightarrow> string \<Rightarrow> match_entry \<Rightarrow> MatchResult" where
  "entry_result ev_name cat_name e =
     match_result ev_name cat_name (corner_of (red_corner e)) (corner_of (blue_corner e)) e"

text \<open>The entries of a feed in feed order, each with the names of its event and category.\<close>

definition category_entries :: "string \<Rightarrow> category_entry \<Rightarrow> (string \<times> string \<times> match_entry) list" where
  "category_entries ev_name cat =
     map (\<lambda>e. (ev_name, dict_get (category_name cat) '''', e)) (dict_get (category_matches cat) [])"

definition event_entries :: "event_entry \<Rightarrow> (string \<times> string \<times> match_entry) list" where
  "event_entries ev =
     concat (map (category_entries (dict_get (event_name ev) '''')) (dict_get (event_categories ev) []))"

definition feed_entries :: "feed \<Rightarrow> (string \<times> string \<times> match_entry) list" where
  "feed_entries data = concat (map event_entries (dict_get (events data) []))"

definition results_of :: "(string \<times> string \<times> match_entry) list \<Rightarrow> MatchResult list" where
  "results_of es =
     map (\<lambda>(ev_name, cat_name, e). entry_result ev_name cat_name e)
       (filter (\<lambda>(ev_name, cat_name, e). complete_entry e) es)"

definition accepted_results :: "feed \<Rightarrow> MatchResult list" where
  "accepted_results data = results_of (feed_entries data)"

definition some_raises :: "(string \<times> string \<times> match_entry) list \<Rightarrow> bool" where
  "some_raises es = list_ex (\<lambda>(ev_name, cat_name, e). entry_raises e) es"

definition feed_raises :: "feed \<Rightarrow> bool" where
  "feed_raises data = some_raises (feed_entries data)"

text \<open>Every match in the list of the analyzer has its two edges.\<close>

definition edges_invariant :: "LossChainAnalyzer \<Rightarrow> bool" where
  "edges_invariant self \<longleftrightarrow> (\<forall>m \<in> set (matches self). edges_recorded self m)"

text \<open>The five signals of the beatability score, as the specification words them.\<close>

definition shared_set :: "LossChainAnalyzer \<Rightarrow> AthleteRecord \<Rightarrow> AthleteRecord \<Rightarrow> string set" where
  "shared_set self r opp =
     set (list_of_dlist (dd_get (win_graph self) (name r) Dlist.empty)) \<inter>
     set (list_of_dlist (dd_get (loss_graph self) (name opp) Dlist.empty))"

definition shared_loss_signal :: "LossChainAnalyzer \<Rightarrow> AthleteRecord \<Rightarrow> AthleteRecord \<Rightarrow> real" where
  "shared_loss_signal self r opp = 0.3 * real (card (shared_set self r opp))"

definition win_rate_signal :: "AthleteRecord \<Rightarrow> AthleteRecord \<Rightarrow> real" where
  "win_rate_signal r opp =
     (if win_rate r > win_rate opp then 0.2 * (win_rate r - win_rate opp) else 0)"

definition recent_form_signal :: "AthleteRecord \<Rightarrow> real" where
  "recent_form_signal opp =
     (if min 3 (length (losses opp)) > min 3 (length (wins opp)) then 0.15 else 0)"

definition experience_signal :: "AthleteRecord \<Rightarrow> AthleteRecord \<Rightarrow> real" where
  "experience_signal r opp = (if total_matches r > total_matches opp then 0.1 else 0)"

text \<open>
  A close loss: the score string splits at the hyphens into exactly two parts, both
  parts read as integers, and the two integers differ by at most 3.
\<close>

definition is_close_loss :: "MatchResult \<Rightarrow> bool" where
  "is_close_loss m =
     (case score m of
        None \<Rightarrow> False
      | Some s \<Rightarrow>
          (case split_on (CHR ''-'') s of
             [p, q] \<Rightarrow>
               (case (py_int p, py_int q) of
                  (Inr a, Inr b) \<Rightarrow> \<bar>a - b\<bar> \<le> 3
                | _ \<Rightarrow> False)
           | _ \<Rightarrow> False))"

definition close_loss_count :: "AthleteRecord \<Rightarrow> nat" where
  "close_loss_count opp = length (filter is_close_loss (losses opp))"

definition close_losses_signal :: "AthleteRecord \<Rightarrow> real" where
  "close_losses_signal opp = 0.1 * real (min (close_loss_count opp) 3)"

text \<open>The names that a reference athlete has beaten and a candidate has lost to, as a list.\<close>

definition shared_list :: "LossChainAnalyzer \<Rightarrow> AthleteRecord \<Rightarrow> AthleteRecord \<Rightarrow> string list" where
  "shared_list self r opp =
     list_of_dlist (set_inter (dd_get (win_graph self) (name r) Dlist.empty)
                              (dd_get (loss_graph self) (name opp) Dlist.empty))"

text \<open>The size of the window of recent matches on a list of wins or losses.\<close>

definition window :: "'a list \<Rightarrow> nat" where
  "window xs = min 3 (length xs)"







text \<open>The names that a trace lists as beaters and as beaters of beaters, and the stored set of beaters as a list.\<close>

fun beater_of :: "chain_line \<Rightarrow> string option" where
  "beater_of (Beater b c) = Some b"
| "beater_of l = None"

fun second_of :: "chain_line \<Rightarrow> string option" where
  "second_of (SecondBeater b c) = Some b"
| "second_of l = None"

definition listed_beaters :: "chain_line list \<Rightarrow> string list" where
  "listed_beaters out = List.map_filter beater_of out"

definition listed_second :: "chain_line list \<Rightarrow> string list" where
  "listed_second out = List.map_filter second_of out"

definition beaters_of :: "LossChainAnalyzer \<Rightarrow> string \<Rightarrow> string list" where
  "beaters_of self n = list_of_dlist (dd_get (loss_graph self) n Dlist.empty)"

subsection \<open>Example data\<close>

text \<open>Scenario A of the specification: ALI (KSA) beats SMITH (UAE) 5-3.\<close>

definition ali_beats_smith :: MatchResult where
  "ali_beats_smith =
     \<lparr>winner = ''ALI'', winner_country = ''KSA'', loser = ''SMITH'', loser_country = ''UAE'',
      score = Some ''5-3'', event = None, category = None, round = None, date = None\<rparr>"

definition smith_after_a :: AthleteRecord where
  "smith_after_a = \<lparr>name = ''SMITH'', country = ''UAE'', wins = [], losses = [ali_beats_smith]\<rparr>"

text \<open>
  Entries of a feed: ALI (red) beats SMITH 5-3; OMAR against SMITH without a declared
  winner; OMAR (blue) beats SMITH 4-2; ALI (red) beats OMAR 6-1. Scenario D has two
  complete entries around the one without a winner; scenario B has SMITH losing to ALI
  and to OMAR after ALI has beaten OMAR.
\<close>

definition entry_ali_smith :: match_entry where
  "entry_ali_smith =
     \<lparr>entry_round = Some ''Final'',
      red_corner = Object \<lparr>corner_name = Some ''ALI'', corner_country = Some ''KSA'',
                         corner_score = Some (JInt 5)\<rparr>,
      blue_corner = Object \<lparr>corner_name = Some ''SMITH'', corner_country = Some ''UAE'',
                          corner_score = Some (JInt 3)\<rparr>,
      entry_winner = Some ''ALI''\<rparr>"

definition entry_no_winner :: match_entry where
  "entry_no_winner =
     \<lparr>entry_round = Some ''Semi-Final'',
      red_corner = Object \<lparr>corner_name = Some ''OMAR'', corner_country = Some ''JOR'',
                         corner_score = Some (JInt 2)\<rparr>,
      blue_corner = Object \<lparr>corner_name = Some ''SMITH'', corner_country = Some ''UAE'',
                          corner_score = Some (JInt 2)\<rparr>,
      entry_winner = None\<rparr>"

definition entry_omar_smith :: match_entry where
  "entry_omar_smith =
     \<lparr>entry_round = None,
      red_corner = Object \<lparr>corner_name = Some ''SMITH'', corner_country = Some ''UAE'',
                         corner_score = Some (JInt 2)\<rparr>,
      blue_corner = Object \<lparr>corner_name = Some ''OMAR'', corner_country = Some ''JOR'',
                          corner_score = Some (JInt 4)\<rparr>,
      entry_winner = Some ''OMAR''\<rparr>"

definition entry_ali_omar :: match_entry where
  "entry_ali_omar =
     \<lparr>entry_round = Some ''Quarter-Final'',
      red_corner = Object \<lparr>corner_name = Some ''ALI'', corner_country = Some ''KSA'',
                         corner_score = Some (JInt 6)\<rparr>,
      blue_corner = Object \<lparr>corner_name = Some ''OMAR'', corner_country = Some ''JOR'',
                          corner_score = Some (JInt 1)\<rparr>,
      entry_winner = Some ''ALI''\<rparr>"

text \<open>A bye as a feed may hold it: ALI in the red corner, no opponent, ALI declared the winner.\<close>

definition entry_bye :: match_entry where
  "entry_bye =
     \<lparr>entry_round = Some ''Round 1'',
      red_corner = Object \<lparr>corner_name = Some ''ALI'', corner_country = Some ''KSA'',
                           corner_score = Some JNull\<rparr>,
      blue_corner = Null,
      entry_winner = Some ''ALI''\<rparr>"

definition feed_of :: "match_entry list \<Rightarrow> feed" where
  "feed_of es =
     \<lparr>events = Some [\<lparr>event_name = Some ''Open'',
                       event_categories =
                         Some [\<lparr>category_name = Some ''Male -77kg'',
                                category_matches = Some es\<rparr>]\<rparr>]\<rparr>"

definition scenario_d_feed :: feed where
  "scenario_d_feed = feed_of [entry_ali_smith, entry_no_winner, entry_omar_smith]"

definition scenario_b_feed :: feed where
  "scenario_b_feed = feed_of [entry_ali_omar, entry_ali_smith, entry_omar_smith]"

definition bye_feed :: feed where
  "bye_feed = feed_of [entry_ali_smith, entry_bye, entry_omar_smith]"

definition result_ali_smith :: MatchResult where
  "result_ali_smith =
     \<lparr>winner = ''ALI'', winner_country = ''KSA'', loser = ''SMITH'', loser_country = ''UAE'',
      score = Some ''5-3'', event = Some ''Open'', category = Some ''Male -77kg'',
      round = Some ''Final'', date = None\<rparr>"

definition result_omar_smith :: MatchResult where
  "result_omar_smith =
     \<lparr>winner = ''OMAR'', winner_country = ''JOR'', loser = ''SMITH'', loser_country = ''UAE'',
      score = Some ''2-4'', event = Some ''Open'', category = Some ''Male -77kg'',
      round = Some ''Unknown'', date = None\<rparr>"

definition result_ali_omar :: MatchResult where
  "result_ali_omar =
     \<lparr>winner = ''ALI'', winner_country = ''KSA'', loser = ''OMAR'', loser_country = ''JOR'',
      score = Some ''6-1'', event = Some ''Open'', category = Some ''Male -77kg'',
      round = Some ''Quarter-Final'', date = None\<rparr>"

text \<open>An entry whose declared winner is neither corner: SMITH (red) against OMAR (blue), winner ALI.\<close>

definition entry_outsider :: match_entry where
  "entry_outsider =
     \<lparr>entry_round = Some ''Final'',
      red_corner = Object \<lparr>corner_name = Some ''SMITH'', corner_country = Some ''UAE'',
                         corner_score = Some (JInt 2)\<rparr>,
      blue_corner = Object \<lparr>corner_name = Some ''OMAR'', corner_country = Some ''JOR'',
                          corner_score = Some (JInt 4)\<rparr>,
      entry_winner = Some ''ALI''\<rparr>"

text \<open>The analyzer after the three results of scenario B, and its three athlete records.\<close>

definition scenario_b :: LossChainAnalyzer where
  "scenario_b = foldl accept_result init [result_ali_omar, result_ali_smith, result_omar_smith]"

definition ali_b :: AthleteRecord where
  "ali_b = \<lparr>name = ''ALI'', country = ''KSA'', wins = [result_ali_omar, result_ali_smith],
            losses = []\<rparr>"

definition omar_b :: AthleteRecord where
  "omar_b = \<lparr>name = ''OMAR'', country = ''JOR'', wins = [result_omar_smith],
             losses = [result_ali_omar]\<rparr>"

definition smith_b :: AthleteRecord where
  "smith_b = \<lparr>name = ''SMITH'', country = ''UAE'', wins = [],
              losses = [result_ali_smith, result_omar_smith]\<rparr>"


text \<open>The analyzer after the two results of scenario D, and its three athlete records.\<close>

definition scenario_d :: LossChainAnalyzer where
  "scenario_d = foldl accept_result init [result_ali_smith, result_omar_smith]"




text \<open>An analyzer in which X lost to B, B lost to P, Q, R and S, and S lost to T.\<close>

definition simple_result :: "string \<Rightarrow> string \<Rightarrow> MatchResult" where
  "simple_result w l =
     \<lparr>winner = w, winner_country = ''JPN'', loser = l, loser_country = ''KOR'',
      score = None, event = None, category = None, round = None, date = None\<rparr>"

definition chain_state :: LossChainAnalyzer where
  "chain_state =
     foldl accept_result init
       [simple_result ''B'' ''X'', simple_result ''P'' ''B'', simple_result ''Q'' ''B'',
        simple_result ''R'' ''B'', simple_result ''S'' ''B'', simple_result ''T'' ''S'']"

section \<open>Win rate\<close>

lemma win_rate_nonneg: "0 \<le> win_rate r"
  by (simp add: win_rate_def Let_def)

lemma win_rate_le_one: "win_rate r \<le> 1"
proof -
  have "real (length (wins r)) \<le> real (length (wins r) + length (losses r))"
    by simp
  then show ?thesis
    by (simp add: win_rate_def Let_def divide_le_eq_1 del: of_nat_add)
qed

lemma win_rate_zero_iff: "win_rate r = 0 \<longleftrightarrow> wins r = []"
proof (cases "wins r = []")
  case True
  then show ?thesis by (simp add: win_rate_def Let_def)
next
  case False
  define n where "n = length (wins r)"
  define t where "t = length (wins r) + length (losses r)"
  have n: "0 < n" using False by (simp add: n_def)
  then have t: "0 < t" by (simp add: t_def n_def)
  have eq: "win_rate r = real n / real t"
    using t by (simp add: win_rate_def Let_def n_def t_def)
  from n t have "0 < real n / real t" by simp
  then have "real n / real t \<noteq> 0" by (rule less_imp_neq [symmetric])
  then have "win_rate r \<noteq> 0" by (simp only: eq not_False_eq_True)
  with False show ?thesis by simp
qed

text \<open>
  Claim C2, as amended. For every athlete record the win rate lies between 0 and 1, and
  it is 0 exactly when the athlete has no wins. An athlete without matches has the win
  rate 0 by convention, but so has every athlete who only lost: the win rate is not 0
  "exactly when" there are no matches.
\<close>

theorem win_rate_range_and_zero:
  "0 \<le> win_rate r \<and> win_rate r \<le> 1 \<and> (win_rate r = 0 \<longleftrightarrow> wins r = []) \<and>
   (total_matches r = 0 \<longrightarrow> win_rate r = 0)"
  by (simp add: win_rate_nonneg win_rate_le_one win_rate_zero_iff total_matches_def)

theorem win_rate_range_and_zero_witness:
  "total_matches (new_record ''ALI'' ''KSA'') = 0 \<and> win_rate (new_record ''ALI'' ''KSA'') = 0 \<and>
   wins smith_after_a = [] \<and> win_rate smith_after_a = 0"
  using win_rate_range_and_zero [of "new_record ''ALI'' ''KSA''"]
    win_rate_range_and_zero [of smith_after_a]
  by (simp add: total_matches_def new_record_def smith_after_a_def)

text \<open>
  The claim as first stated fails on SMITH after scenario A: no win and one loss, so the
  win rate is 0 although one match is recorded.
\<close>

theorem win_rate_zero_with_matches:
  "\<not> (win_rate smith_after_a = 0 \<longleftrightarrow> total_matches smith_after_a = 0)"
  by (simp add: win_rate_def total_matches_def smith_after_a_def)


section \<open>Ingestion\<close>

lemma update_records_matches: "matches (update_records self m) = matches self"
  by (simp add: update_records_def Let_def)

lemma update_records_win_graph:
  "win_graph (update_records self m) = graph_add (win_graph self) (winner m) (loser m)"
  by (simp add: update_records_def Let_def)

lemma update_records_loss_graph:
  "loss_graph (update_records self m) = graph_add (loss_graph self) (loser m) (winner m)"
  by (simp add: update_records_def Let_def)

lemma has_edge_graph_add_same: "has_edge (graph_add g k x) k x"
  by (simp add: has_edge_def graph_add_def Dlist.member_def)

lemma has_edge_graph_add_mono: "has_edge g k' x' \<Longrightarrow> has_edge (graph_add g k x) k' x'"
  by (auto simp: has_edge_def graph_add_def Dlist.member_def split: option.splits)

lemma graph_add_twice: "graph_add (graph_add g k x) k x = graph_add g k x"
  by (auto simp: graph_add_def dlist_eq_iff split: option.splits)

lemma edges_recorded_update_same: "edges_recorded (update_records self m) m"
  by (simp add: edges_recorded_def update_records_win_graph update_records_loss_graph
      has_edge_graph_add_same)

lemma edges_recorded_update_mono:
  "edges_recorded self m' \<Longrightarrow> edges_recorded (update_records self m) m'"
  by (simp add: edges_recorded_def update_records_win_graph update_records_loss_graph
      has_edge_graph_add_mono)

lemma edges_recorded_foldl_mono:
  "edges_recorded self m' \<Longrightarrow> edges_recorded (foldl update_records self ms) m'"
  by (induction ms arbitrary: self) (simp_all add: edges_recorded_update_mono)

lemma edges_recorded_foldl:
  "m \<in> set ms \<Longrightarrow> edges_recorded (foldl update_records self ms) m"
proof (induction ms arbitrary: self)
  case Nil
  then show ?case by simp
next
  case (Cons a ms)
  show ?case
  proof (cases "m = a")
    case True
    then show ?thesis
      by (simp add: edges_recorded_foldl_mono edges_recorded_update_same)
  next
    case False
    with Cons show ?thesis by simp
  qed
qed

lemma accept_result_matches: "matches (accept_result self r) = matches self @ [r]"
  by (simp add: accept_result_def update_records_matches)

lemma edges_recorded_matches_upd:
  "edges_recorded (self\<lparr>matches := ms\<rparr>) m = edges_recorded self m"
  by (simp add: edges_recorded_def)

lemma edges_recorded_accept_same: "edges_recorded (accept_result self r) r"
  by (simp add: accept_result_def edges_recorded_update_same)

lemma edges_recorded_accept_mono:
  "edges_recorded self m \<Longrightarrow> edges_recorded (accept_result self r) m"
  by (simp add: accept_result_def edges_recorded_update_mono edges_recorded_matches_upd)

lemma edges_invariant_accept:
  "edges_invariant self \<Longrightarrow> edges_invariant (accept_result self r)"
  by (auto simp: edges_invariant_def accept_result_matches edges_recorded_accept_same
      edges_recorded_accept_mono)

lemma edges_invariant_foldl_accept:
  "edges_invariant self \<Longrightarrow> edges_invariant (foldl accept_result self rs)"
  by (induction rs arbitrary: self) (simp_all add: edges_invariant_accept)

lemma matches_foldl_accept: "matches (foldl accept_result self rs) = matches self @ rs"
  by (induction rs arbitrary: self) (simp_all add: accept_result_matches)

lemma load_match_eq:
  "load_match ev cat (c, s) e =
     (if entry_raises e then Inl AttributeError
      else if complete_entry e then Inr (c + 1, accept_result s (entry_result ev cat e))
      else Inr (c, s))"
  by (auto simp: load_match_def complete_entry_def entry_raises_def has_name_def truthy_def
      dict_get_def get_corner_def corner_of_def entry_result_def empty_corner_def Let_def
      split: option.splits corner_field.splits)

lemma results_of_append: "results_of (a @ b) = results_of a @ results_of b"
  by (simp add: results_of_def)

lemma some_raises_append: "some_raises (a @ b) \<longleftrightarrow> some_raises a \<or> some_raises b"
  by (auto simp: some_raises_def list_ex_iff)

lemma for_loop_load_match:
  "for_loop (load_match ev cat) (c, s) es =
     (if some_raises (map (\<lambda>e. (ev, cat, e)) es) then Inl AttributeError
      else Inr (c + length (results_of (map (\<lambda>e. (ev, cat, e)) es)),
                foldl accept_result s (results_of (map (\<lambda>e. (ev, cat, e)) es))))"
proof (induction es arbitrary: c s)
  case Nil
  then show ?case by (simp add: results_of_def some_raises_def)
next
  case (Cons e es)
  then show ?case by (simp add: load_match_eq results_of_def some_raises_def)
qed

lemma load_category_eq:
  "load_category ev (c, s) cat =
     (if some_raises (category_entries ev cat) then Inl AttributeError
      else Inr (c + length (results_of (category_entries ev cat)),
                foldl accept_result s (results_of (category_entries ev cat))))"
  by (simp add: load_category_def category_entries_def for_loop_load_match)

lemma for_loop_load_category:
  "for_loop (load_category ev) (c, s) cats =
     (if some_raises (concat (map (category_entries ev) cats)) then Inl AttributeError
      else Inr (c + length (results_of (concat (map (category_entries ev) cats))),
                foldl accept_result s (results_of (concat (map (category_entries ev) cats)))))"
proof (induction cats arbitrary: c s)
  case Nil
  then show ?case by (simp add: results_of_def some_raises_def)
next
  case (Cons a cats)
  then show ?case by (simp add: load_category_eq results_of_append some_raises_append)
qed

lemma load_event_eq:
  "load_event (c, s) ev =
     (if some_raises (event_entries ev) then Inl AttributeError
      else Inr (c + length (results_of (event_entries ev)),
                foldl accept_result s (results_of (event_entries ev))))"
  by (simp add: load_event_def event_entries_def for_loop_load_category)

lemma for_loop_load_event:
  "for_loop load_event (c, s) evs =
     (if some_raises (concat (map event_entries evs)) then Inl AttributeError
      else Inr (c + length (results_of (concat (map event_entries evs))),
                foldl accept_result s (results_of (concat (map event_entries evs)))))"
proof (induction evs arbitrary: c s)
  case Nil
  then show ?case by (simp add: results_of_def some_raises_def)
next
  case (Cons a evs)
  then show ?case by (simp add: load_event_eq results_of_append some_raises_append)
qed

lemma load_matches_eq:
  "load_matches self (Some data) =
     (if feed_raises data then Inl AttributeError
      else Inr (length (accepted_results data), foldl accept_result self (accepted_results data)))"
  by (simp add: load_matches_def for_loop_load_event accepted_results_def feed_raises_def
      feed_entries_def)

lemma load_matches_Inr:
  "load_matches self (Some data) = Inr (n, s') \<Longrightarrow>
   n = length (accepted_results data) \<and> s' = foldl accept_result self (accepted_results data)"
  by (simp add: load_matches_eq split: if_splits)

lemmas feed_eval = feed_of_def feed_entries_def event_entries_def category_entries_def
  dict_get_def results_of_def complete_entry_def entry_raises_def some_raises_def has_name_def
  truthy_def entry_result_def corner_of_def match_result_def str_score_def str_int_def
  str_nat.simps Let_def

lemma scenario_d_results: "accepted_results scenario_d_feed = [result_ali_smith, result_omar_smith]"
  by (simp add: accepted_results_def scenario_d_feed_def feed_eval entry_ali_smith_def
      entry_no_winner_def entry_omar_smith_def result_ali_smith_def result_omar_smith_def)

lemma scenario_b_results:
  "accepted_results scenario_b_feed = [result_ali_omar, result_ali_smith, result_omar_smith]"
  by (simp add: accepted_results_def scenario_b_feed_def feed_eval entry_ali_smith_def
      entry_ali_omar_def entry_omar_smith_def result_ali_smith_def result_omar_smith_def
      result_ali_omar_def)

lemma bye_feed_results: "accepted_results bye_feed = [result_ali_smith, result_omar_smith]"
  by (simp add: accepted_results_def bye_feed_def feed_eval entry_ali_smith_def
      entry_bye_def entry_omar_smith_def result_ali_smith_def result_omar_smith_def)

lemma scenario_d_no_raise: "\<not> feed_raises scenario_d_feed"
  by (simp add: feed_raises_def scenario_d_feed_def feed_eval entry_ali_smith_def
      entry_no_winner_def entry_omar_smith_def)

lemma scenario_b_no_raise: "\<not> feed_raises scenario_b_feed"
  by (simp add: feed_raises_def scenario_b_feed_def feed_eval entry_ali_smith_def
      entry_ali_omar_def entry_omar_smith_def)

lemma bye_feed_raises: "feed_raises bye_feed"
  by (simp add: feed_raises_def bye_feed_def feed_eval entry_ali_smith_def
      entry_bye_def entry_omar_smith_def)

lemma load_scenario_d: "load_matches init (Some scenario_d_feed) = Inr (2, scenario_d)"
  by (simp add: load_matches_eq scenario_d_no_raise scenario_d_results scenario_d_def)

lemma load_scenario_b: "load_matches init (Some scenario_b_feed) = Inr (3, scenario_b)"
  by (simp add: load_matches_eq scenario_b_no_raise scenario_b_results scenario_b_def)

text \<open>
  Claim C3. A load that returns keeps the invariant that every match in the analyzer's
  list has its winner as a key of the win graph with the loser in the set, and its loser
  as a key of the loss graph with the winner in the set; the empty analyzer has it. The
  same holds for every match of a sequence passed to \<^verbatim>\<open>_update_records\<close> one by
  one. Recording the same match a second time leaves both graphs as they are.
\<close>

theorem ingested_matches_have_edges:
  "(edges_invariant self \<and> load_matches self file = Inr (n, s') \<longrightarrow> edges_invariant s') \<and>
   (load_matches init file = Inr (n, s') \<longrightarrow> edges_invariant s') \<and>
   (\<forall>m \<in> set ms. edges_recorded (foldl update_records self ms) m) \<and>
   win_graph (update_records (update_records self m) m) = win_graph (update_records self m) \<and>
   loss_graph (update_records (update_records self m) m) = loss_graph (update_records self m)"
proof -
  have keep: "edges_invariant s'" if "edges_invariant s" "load_matches s file = Inr (n, s')" for s
  proof (cases "file")
    case None
    with that show ?thesis by (simp add: load_matches_def)
  next
    case (Some data)
    with that(2) have "s' = foldl accept_result s (accepted_results data)"
      by (simp add: load_matches_Inr)
    with that(1) show ?thesis by (simp add: edges_invariant_foldl_accept)
  qed
  have start: "edges_invariant init"
    by (simp add: edges_invariant_def init_def)
  show ?thesis
    using keep [of self] keep [OF start]
    by (simp add: edges_recorded_foldl update_records_win_graph update_records_loss_graph
        graph_add_twice)
qed

theorem ingested_matches_have_edges_witness:
  "edges_invariant init \<and>
   load_matches init (Some scenario_b_feed) = Inr (3, scenario_b) \<and>
   result_omar_smith \<in> set (matches scenario_b) \<and>
   has_edge (win_graph scenario_b) ''OMAR'' ''SMITH'' \<and>
   has_edge (loss_graph scenario_b) ''SMITH'' ''OMAR''"
proof -
  have start: "edges_invariant init"
    by (simp add: edges_invariant_def init_def)
  have mem: "result_omar_smith \<in> set (matches scenario_b)"
    by (simp only: scenario_b_def matches_foldl_accept) simp
  from ingested_matches_have_edges [of init "Some scenario_b_feed" 3 scenario_b] start
  have "edges_invariant scenario_b"
    by (simp add: load_scenario_b)
  with mem have "edges_recorded scenario_b result_omar_smith"
    unfolding edges_invariant_def by blast
  then show ?thesis
    using start mem by (simp add: edges_recorded_def result_omar_smith_def load_scenario_b)
qed

text \<open>
  Claim C5 says that \<^verbatim>\<open>load_matches\<close> skips an entry without a winner or without
  the name of a corner, goes on with the rest and never fails on one malformed entry. It
  does so on scenario D, which gives 2. It does not on a bye that declares its winner: the
  feed below has two complete entries around the entry of ALI against nobody, won by ALI,
  whose blue corner is \<^verbatim>\<open>null\<close>. The default of \<^verbatim>\<open>match.get('blue_corner', {})\<close>
  does not replace a \<^verbatim>\<open>null\<close>, the name is asked of \<^verbatim>\<open>None\<close>, and the call
  ends with \<^verbatim>\<open>AttributeError\<close> instead of returning 2.
\<close>

theorem load_matches_fails_on_bye:
  "length (filter (\<lambda>(ev_name, cat_name, e). complete_entry e) (feed_entries bye_feed)) = 2 \<and>
   \<not> complete_entry entry_bye \<and>
   load_matches init (Some bye_feed) = Inl AttributeError \<and>
   load_matches init (Some scenario_d_feed) = Inr (2, scenario_d)"
proof -
  have "length (accepted_results bye_feed) = 2"
    by (simp add: bye_feed_results)
  then have "length (filter (\<lambda>(ev_name, cat_name, e). complete_entry e) (feed_entries bye_feed)) = 2"
    by (simp add: accepted_results_def results_of_def)
  moreover have "\<not> complete_entry entry_bye"
    by (simp add: complete_entry_def entry_bye_def has_name_def)
  moreover have "load_matches init (Some bye_feed) = Inl AttributeError"
    by (simp add: load_matches_eq bye_feed_raises)
  ultimately show ?thesis
    by (simp add: load_scenario_d)
qed

lemma map_of_snoc:
  "map_of (xs @ [(k, v)]) k' =
     (case map_of xs k' of None \<Rightarrow> (if k' = k then Some v else None) | Some y \<Rightarrow> Some y)"
  by (induction xs) auto

lemma athlete_map_update:
  "map_of (athlete_records (update_records self m)) =
     (let M = map_of (athlete_records self);
          rw = (case M (winner m) of
                  None \<Rightarrow> new_record (winner m) (winner_country m) | Some r \<Rightarrow> r);
          M2 = M(winner m \<mapsto> rw\<lparr>wins := wins rw @ [m]\<rparr>);
          rl = (case M2 (loser m) of
                  None \<Rightarrow> new_record (loser m) (loser_country m) | Some r \<Rightarrow> r)
      in M2(loser m \<mapsto> rl\<lparr>losses := losses rl @ [m]\<rparr>))"
  by (rule ext)
     (auto simp add: update_records_def Let_def AList.map_of_map_entry map_of_snoc
       simp del: map_of_append split: option.splits)

lemma winner_record_new:
  "map_of (athlete_records self) (winner m) = None \<Longrightarrow> winner m \<noteq> loser m \<Longrightarrow>
   map_of (athlete_records (update_records self m)) (winner m) =
     Some \<lparr>name = winner m, country = winner_country m, wins = [m], losses = []\<rparr>"
  by (simp add: athlete_map_update Let_def new_record_def)

lemma match_result_other_winner:
  assumes "entry_winner e = Some w" "corner_name r = Some rn" "w \<noteq> rn"
  shows "match_result ev cat r b e =
     \<lparr>winner = w, winner_country = dict_get (corner_country b) '''',
      loser = rn, loser_country = dict_get (corner_country r) '''',
      score = Some (str_score (dict_get (corner_score r) (JInt 0)) @ ''-'' @
                        str_score (dict_get (corner_score b) (JInt 0))),
      event = Some ev, category = Some cat,
      round = Some (dict_get (entry_round e) ''Unknown''), date = None\<rparr>"
  using assms by (simp add: match_result_def dict_get_def Let_def)

text \<open>
  Claim C10. An entry with a declared winner and two named corners, whose winner is
  neither corner's name, is accepted: the counter goes up by one, the result has the
  declared winner, the red corner as the loser with the red corner's country, and the
  blue corner's country as the winner's country; the result joins the list of matches
  and both graphs, and a winner not seen before gets an athlete record with the blue
  corner's country.
\<close>

theorem winner_outside_corners_accepted:
  assumes "entry_winner e = Some w" and "w \<noteq> []"
    and "red_corner e = Object r" and "corner_name r = Some rn" and "rn \<noteq> []"
    and "blue_corner e = Object b" and "corner_name b = Some bn" and "bn \<noteq> []"
    and "w \<noteq> rn" and "w \<noteq> bn"
  shows "\<exists>m. load_match ev cat (c, self) e = Inr (c + 1, accept_result self m) \<and>
     winner m = w \<and> loser m = rn \<and>
     loser_country m = dict_get (corner_country r) '''' \<and>
     winner_country m = dict_get (corner_country b) '''' \<and>
     matches (accept_result self m) = matches self @ [m] \<and>
     has_edge (win_graph (accept_result self m)) w rn \<and>
     has_edge (loss_graph (accept_result self m)) rn w \<and>
     (map_of (athlete_records self) w = None \<longrightarrow>
        map_of (athlete_records (accept_result self m)) w =
          Some \<lparr>name = w, country = dict_get (corner_country b) '''', wins = [m], losses = []\<rparr>)"
proof -
  define m where "m = entry_result ev cat e"
  have m: "winner m = w" "loser m = rn" "loser_country m = dict_get (corner_country r) ''''"
    "winner_country m = dict_get (corner_country b) ''''"
    using assms
    by (simp_all add: m_def entry_result_def corner_of_def match_result_other_winner)
  have "complete_entry e" and "\<not> entry_raises e"
    using assms by (simp_all add: complete_entry_def entry_raises_def has_name_def truthy_def)
  then have 1: "load_match ev cat (c, self) e = Inr (c + 1, accept_result self m)"
    by (simp add: load_match_eq m_def)
  have 2: "edges_recorded (accept_result self m) m"
    by (rule edges_recorded_accept_same)
  have 3: "map_of (athlete_records self) w = None \<longrightarrow>
        map_of (athlete_records (accept_result self m)) w =
          Some \<lparr>name = w, country = dict_get (corner_country b) '''', wins = [m], losses = []\<rparr>"
    using winner_record_new [of "self\<lparr>matches := matches self @ [m]\<rparr>" m] m assms(9)
    by (simp add: accept_result_def)
  show ?thesis
    using 1 2 3 m by (intro exI [of _ m]) (simp add: accept_result_matches edges_recorded_def)
qed

theorem winner_outside_corners_accepted_witness:
  "entry_winner entry_outsider = Some ''ALI'' \<and> ''ALI'' \<noteq> ''SMITH'' \<and> ''ALI'' \<noteq> ''OMAR'' \<and>
   (\<exists>m. load_match ''Open'' ''Male -77kg'' (0, init) entry_outsider =
          Inr (1, accept_result init m) \<and>
        winner m = ''ALI'' \<and> loser m = ''SMITH'' \<and>
        loser_country m = ''UAE'' \<and> winner_country m = ''JOR'' \<and>
        matches (accept_result init m) = [m] \<and>
        has_edge (win_graph (accept_result init m)) ''ALI'' ''SMITH'' \<and>
        has_edge (loss_graph (accept_result init m)) ''SMITH'' ''ALI'' \<and>
        map_of (athlete_records (accept_result init m)) ''ALI'' =
          Some \<lparr>name = ''ALI'', country = ''JOR'', wins = [m], losses = []\<rparr>)"
  using winner_outside_corners_accepted
    [of entry_outsider "''ALI''"
        "\<lparr>corner_name = Some ''SMITH'', corner_country = Some ''UAE'', corner_score = Some (JInt 2)\<rparr>"
        "''SMITH''"
        "\<lparr>corner_name = Some ''OMAR'', corner_country = Some ''JOR'', corner_score = Some (JInt 4)\<rparr>"
        "''OMAR''" "''Open''" "''Male -77kg''" 0 init]
  by (simp add: entry_outsider_def dict_get_def init_def)


section \<open>Beatability\<close>

lemma set_inter_list: "list_of_dlist (set_inter a b) = filter (\<lambda>x. x \<in> set (list_of_dlist b)) (list_of_dlist a)"
proof -
  have "List.member (list_of_dlist b) = (\<lambda>x. x \<in> set (list_of_dlist b))"
    by (rule ext) simp
  then show ?thesis
    by (simp add: set_inter_def Dlist.member_def)
qed

lemma set_set_inter: "set (list_of_dlist (set_inter a b)) = set (list_of_dlist a) \<inter> set (list_of_dlist b)"
  by (auto simp: set_inter_list)

lemma length_set_inter:
  "Dlist.length (set_inter a b) = card (set (list_of_dlist a) \<inter> set (list_of_dlist b))"
proof -
  have "card (set (list_of_dlist (set_inter a b))) = length (list_of_dlist (set_inter a b))"
    by (rule distinct_card) simp
  then show ?thesis
    by (simp add: Dlist.length_def set_set_inter)
qed

lemma shared_list_set: "set (shared_list self r opp) = shared_set self r opp"
  by (simp add: shared_list_def shared_set_def set_set_inter)

lemma shared_list_distinct: "distinct (shared_list self r opp)"
  by (simp add: shared_list_def)

lemma shared_list_length: "length (shared_list self r opp) = card (shared_set self r opp)"
  using distinct_card [OF shared_list_distinct, of self r opp]
  by (simp add: shared_list_set)

lemma shared_losses_part_eq:
  "shared_losses_part self r opp (sc, rs) =
     (sc + shared_loss_signal self r opp,
      rs @ map (\<lambda>l. LostTo l (name r)) (shared_list self r opp))"
proof -
  have len: "Dlist.length (set_inter (dd_get (win_graph self) (name r) Dlist.empty)
                              (dd_get (loss_graph self) (name opp) Dlist.empty))
             = card (shared_set self r opp)"
    by (simp add: length_set_inter shared_set_def)
  show ?thesis
  proof (cases "shared_list self r opp = []")
    case True
    then have "card (shared_set self r opp) = 0"
      using shared_list_length [of self r opp] by simp
    with True show ?thesis
      by (simp add: shared_losses_part_def Let_def Dlist.null_def shared_list_def
          shared_loss_signal_def)
  next
    case False
    then show ?thesis
      by (simp add: shared_losses_part_def Let_def Dlist.null_def shared_list_def [symmetric]
          shared_loss_signal_def len)
  qed
qed

lemma win_rate_part_eq:
  "win_rate_part r opp (sc, rs) =
     (sc + win_rate_signal r opp,
      rs @ (if win_rate r > win_rate opp then [LowerWinRate (win_rate opp) (win_rate r)] else []))"
  by (simp add: win_rate_part_def win_rate_signal_def Let_def)

lemma last_n_length: "length (last_n k xs) = min k (length xs)"
  by (simp add: last_n_def)

lemma recent_form_part_eq:
  "recent_form_part opp (sc, rs) =
     ((sc + recent_form_signal opp,
       rs @ (if window (losses opp) > window (wins opp)
             then [FormDeclining (window (losses opp))] else [])),
      (if window (losses opp) > window (wins opp) then ''declining''
       else if window (wins opp) > window (losses opp) then ''improving'' else ''stable''))"
  by (simp add: recent_form_part_def recent_form_signal_def window_def Let_def last_n_length
      min_def)

lemma experience_part_eq:
  "experience_part r opp (sc, rs) =
     (sc + experience_signal r opp,
      rs @ (if total_matches r > total_matches opp
            then [LessExperienced (total_matches opp) (total_matches r)] else []))"
  by (simp add: experience_part_def experience_signal_def Let_def)

lemma close_loss_step_eq:
  "close_loss_step acc m = (if is_close_loss m then acc @ [make_close_loss m] else acc)"
proof (cases "score m")
  case None
  then show ?thesis by (simp add: close_loss_step_def is_close_loss_def)
next
  case (Some s)
  show ?thesis
  proof (cases "s = []")
    case True
    with Some show ?thesis by (simp add: close_loss_step_def is_close_loss_def)
  next
    case False
    consider (two) p q where "split_on (CHR ''-'') s = [p, q]"
      | (other) "length (split_on (CHR ''-'') s) \<noteq> 2"
      by (cases "split_on (CHR ''-'') s" rule: list.exhaust)
         (auto simp: length_Suc_conv intro: list.exhaust)
    then show ?thesis
    proof cases
      case two
      with Some False show ?thesis
        by (auto simp: close_loss_step_def is_close_loss_def close_loss_try_def Let_def
            make_close_loss_def split: sum.splits)
    next
      case other
      then have "(case split_on (CHR ''-'') s of [p, q] \<Rightarrow> f p q | _ \<Rightarrow> False) = False" for f
        by (auto split: list.splits)
      with Some False other show ?thesis
        by (simp add: close_loss_step_def is_close_loss_def close_loss_try_def Let_def)
    qed
  qed
qed

lemma foldl_close_loss_step:
  "foldl close_loss_step acc ls = acc @ map make_close_loss (filter is_close_loss ls)"
  by (induction ls arbitrary: acc) (simp_all add: close_loss_step_eq)

lemma close_losses_part_eq:
  "close_losses_part opp (sc, rs) =
     (sc + close_losses_signal opp,
      rs @ (if close_loss_count opp > 0 then [HasCloseLosses (close_loss_count opp)] else []))"
  by (simp add: close_losses_part_def close_losses_signal_def close_loss_count_def Let_def
      foldl_close_loss_step)

lemma calculate_beatability_eq:
  "calculate_beatability self r opp =
     (\<lparr>opponent_name = name opp,
       opponent_country = country opp,
       beatability_score =
         min (shared_loss_signal self r opp + win_rate_signal r opp + recent_form_signal opp +
              experience_signal r opp + close_losses_signal opp) 1,
       reasoning =
         map (\<lambda>l. LostTo l (name r)) (shared_list self r opp) @
         (if win_rate r > win_rate opp then [LowerWinRate (win_rate opp) (win_rate r)] else []) @
         (if window (losses opp) > window (wins opp)
          then [FormDeclining (window (losses opp))] else []) @
         (if total_matches r > total_matches opp
          then [LessExperienced (total_matches opp) (total_matches r)] else []) @
         (if close_loss_count opp > 0 then [HasCloseLosses (close_loss_count opp)] else []),
       key_losses = map make_key_loss (last_n 5 (losses opp)),
       shared_opponents = find_shared_opponents self (name r) (name opp),
       recent_form =
         (if window (losses opp) > window (wins opp) then ''declining''
          else if window (wins opp) > window (losses opp) then ''improving'' else ''stable''),
       world_rank = None\<rparr>, self)"
  unfolding calculate_beatability_def Let_def shared_losses_part_eq win_rate_part_eq
    recent_form_part_eq experience_part_eq close_losses_part_eq prod.case
  by simp

lemma signals_nonneg:
  "0 \<le> shared_loss_signal self r opp" "0 \<le> win_rate_signal r opp" "0 \<le> recent_form_signal opp"
  "0 \<le> experience_signal r opp" "0 \<le> close_losses_signal opp"
  by (simp_all add: shared_loss_signal_def win_rate_signal_def recent_form_signal_def
      experience_signal_def close_losses_signal_def)

lemma beatability_score_eq:
  "beatability_score (fst (calculate_beatability self r opp)) =
     min (shared_loss_signal self r opp + win_rate_signal r opp + recent_form_signal opp +
          experience_signal r opp + close_losses_signal opp) 1"
  by (simp add: calculate_beatability_eq)

lemma beatability_score_range:
  "0 \<le> beatability_score (fst (calculate_beatability self r opp))"
  "beatability_score (fst (calculate_beatability self r opp)) \<le> 1"
  using signals_nonneg(1) [of self r opp] signals_nonneg(2) [of r opp] signals_nonneg(3) [of opp]
    signals_nonneg(4) [of r opp] signals_nonneg(5) [of opp]
  by (simp_all add: beatability_score_eq)

lemma analyze_opponents_acc:
  "t \<in> set (foldl (\<lambda>targets opp.
              if name opp = name saudi then targets
              else (let target = fst (calculate_beatability self saudi opp)
                    in if beatability_score target > 0 then targets @ [target] else targets))
       acc opponents) \<Longrightarrow>
   t \<in> set acc \<or> (\<exists>opp \<in> set opponents. t = fst (calculate_beatability self saudi opp))"
proof (induction opponents arbitrary: acc)
  case Nil
  then show ?case by simp
next
  case (Cons a opponents)
  from Cons.IH [OF Cons.prems [simplified foldl_Cons]]
  show ?case by (auto simp: Let_def split: if_splits)
qed

lemma analyze_opponents_from:
  "t \<in> set (analyze_opponents self saudi opponents) \<Longrightarrow>
   \<exists>opp \<in> set opponents. t = fst (calculate_beatability self saudi opp)"
  using analyze_opponents_acc [of t saudi self "[]" opponents]
  by (simp add: analyze_opponents_def)

lemma report_for_targets:
  "t \<in> set (scouting_targets (report_for self opponents saudi)) \<Longrightarrow>
   \<exists>opp \<in> set opponents. t = fst (calculate_beatability self saudi opp)"
proof -
  assume "t \<in> set (scouting_targets (report_for self opponents saudi))"
  then have "t \<in> set (take 10 (sort_key (\<lambda>x. - beatability_score x)
                                   (analyze_opponents self saudi opponents)))"
    by (simp add: report_for_def Let_def)
  then have "t \<in> set (analyze_opponents self saudi opponents)"
    by (auto dest: in_set_takeD)
  then show ?thesis by (rule analyze_opponents_from)
qed

lemma report_scores_range:
  assumes "generate_scouting_report self saudi_name cat = Inr rep"
    and "ar \<in> set (scouting_reports rep)" and "t \<in> set (scouting_targets ar)"
  shows "0 \<le> beatability_score t \<and> beatability_score t \<le> 1"
proof -
  from assms(1,2) obtain opponents saudi where "ar = report_for self opponents saudi"
    by (auto simp: generate_scouting_report_def Let_def split: if_splits sum.splits)
  with assms(3) obtain opp where "t = fst (calculate_beatability self saudi opp)"
    using report_for_targets by blast
  then show ?thesis by (simp add: beatability_score_range)
qed

subsection \<open>Scenario B, evaluated\<close>

lemma scenario_b_unfold:
  "scenario_b =
     accept_result (accept_result (accept_result init result_ali_omar) result_ali_smith)
       result_omar_smith"
  by (simp add: scenario_b_def)

lemma scenario_b_records:
  "athlete_records scenario_b = [(''ALI'', ali_b), (''OMAR'', omar_b), (''SMITH'', smith_b)]"
  by (simp add: scenario_b_unfold accept_result_def update_records_def Let_def init_def
      new_record_def result_ali_omar_def result_ali_smith_def result_omar_smith_def
      ali_b_def omar_b_def smith_b_def)

lemma scenario_b_matches:
  "matches scenario_b = [result_ali_omar, result_ali_smith, result_omar_smith]"
  by (simp add: scenario_b_unfold accept_result_matches init_def)

lemma scenario_b_win_graph:
  "win_graph scenario_b =
     [''ALI'' \<mapsto> Dlist.insert ''SMITH'' (Dlist.insert ''OMAR'' Dlist.empty),
      ''OMAR'' \<mapsto> Dlist.insert ''SMITH'' Dlist.empty]"
  by (simp add: scenario_b_unfold accept_result_def update_records_win_graph graph_add_def
      init_def result_ali_omar_def result_ali_smith_def result_omar_smith_def)

lemma scenario_b_loss_graph:
  "loss_graph scenario_b =
     [''OMAR'' \<mapsto> Dlist.insert ''ALI'' Dlist.empty,
      ''SMITH'' \<mapsto> Dlist.insert ''OMAR'' (Dlist.insert ''ALI'' Dlist.empty)]"
  by (simp add: scenario_b_unfold accept_result_def update_records_loss_graph graph_add_def
      init_def result_ali_omar_def result_ali_smith_def result_omar_smith_def)

lemma scenario_b_shared_list: "shared_list scenario_b ali_b smith_b = [''OMAR'']"
  by (simp add: shared_list_def scenario_b_win_graph scenario_b_loss_graph dd_get_def
      set_inter_list ali_b_def smith_b_def)


lemmas py_int_eval = py_int_def strip_def is_space_def digits_value_def digit_val_def
  is_digit_def Let_def

lemma close_ali_smith: "is_close_loss result_ali_smith"
  by (simp add: is_close_loss_def result_ali_smith_def py_int_eval)

lemma close_omar_smith: "is_close_loss result_omar_smith"
  by (simp add: is_close_loss_def result_omar_smith_def py_int_eval)

lemma not_close_ali_omar: "\<not> is_close_loss result_ali_omar"
  by (simp add: is_close_loss_def result_ali_omar_def py_int_eval)

lemma win_rates_b: "win_rate ali_b = 1" "win_rate smith_b = 0" "win_rate omar_b = 1 / 2"
  by (simp_all add: win_rate_def ali_b_def smith_b_def omar_b_def)

lemma scenario_b_shared_set: "shared_set scenario_b ali_b smith_b = {''OMAR''}"
  using shared_list_set [of scenario_b ali_b smith_b] by (simp add: scenario_b_shared_list)

lemma score_ali_smith:
  "beatability_score (fst (calculate_beatability scenario_b ali_b smith_b)) = 0.85"
  by (simp add: beatability_score_eq shared_loss_signal_def scenario_b_shared_set
      win_rate_signal_def win_rates_b recent_form_signal_def experience_signal_def
      total_matches_def close_losses_signal_def close_loss_count_def)
     (simp add: smith_b_def ali_b_def close_ali_smith close_omar_smith)

lemma upper_codes: "upper ''KSA'' = ''KSA''" "upper ''JOR'' = ''JOR''" "upper ''UAE'' = ''UAE''"
  by (simp_all add: upper_def upper_char_def)

lemma code_membership:
  "''KSA'' \<in> set SAUDI_CODES" "''JOR'' \<notin> set SAUDI_CODES" "''UAE'' \<notin> set SAUDI_CODES"
  "''KSA'' \<in> set ASIAN_COUNTRIES" "''JOR'' \<in> set ASIAN_COUNTRIES" "''UAE'' \<in> set ASIAN_COUNTRIES"
  by (simp_all add: SAUDI_CODES_def ASIAN_COUNTRIES_def)

lemma countries_b: "country ali_b = ''KSA''" "country omar_b = ''JOR''" "country smith_b = ''UAE''"
  by (simp_all add: ali_b_def omar_b_def smith_b_def)

lemma saudi_b: "get_saudi_athletes scenario_b = [ali_b]"
  by (simp add: get_saudi_athletes_def scenario_b_records sort_by_activity_def countries_b
      upper_codes code_membership)

lemma asian_b: "get_asian_opponents scenario_b None = Inr [omar_b, smith_b]"
  by (simp add: get_asian_opponents_def scenario_b_records countries_b upper_codes
      code_membership)


lemma scenario_b_shared_set_omar: "shared_set scenario_b ali_b omar_b = {}"
  by (simp add: shared_set_def scenario_b_win_graph scenario_b_loss_graph dd_get_def
      ali_b_def omar_b_def)

lemma score_ali_omar:
  "beatability_score (fst (calculate_beatability scenario_b ali_b omar_b)) = 0.1"
  by (simp add: beatability_score_eq shared_loss_signal_def scenario_b_shared_set_omar
      win_rate_signal_def win_rates_b recent_form_signal_def experience_signal_def
      total_matches_def close_losses_signal_def close_loss_count_def)
     (simp add: omar_b_def ali_b_def not_close_ali_omar)

lemma names_b: "name ali_b = ''ALI''" "name omar_b = ''OMAR''" "name smith_b = ''SMITH''"
  by (simp_all add: ali_b_def omar_b_def smith_b_def)

lemma targets_b:
  "map beatability_score (scouting_targets (report_for scenario_b [omar_b, smith_b] ali_b)) =
     [0.85, 0.1]"
  by (simp add: report_for_def analyze_opponents_def Let_def names_b score_ali_omar
      score_ali_smith)

lemma report_b:
  "generate_scouting_report scenario_b None None =
     Inr \<lparr>total_matches_analyzed = 3,
          scouting_reports = [report_for scenario_b [omar_b, smith_b] ali_b]\<rparr>"
  by (simp add: generate_scouting_report_def Let_def truthy_def saudi_b asian_b
      scenario_b_matches)

text \<open>
  Claim C1. The score that \<^verbatim>\<open>calculate_beatability\<close> returns is the sum of the
  five signals, cut at 1, and it is never negative. Hence every score in a generated
  scouting report lies between 0 and 1.
\<close>

theorem beatability_score_clamped_sum:
  "beatability_score (fst (calculate_beatability self r opp)) =
     min (shared_loss_signal self r opp + win_rate_signal r opp + recent_form_signal opp +
          experience_signal r opp + close_losses_signal opp) 1 \<and>
   0 \<le> beatability_score (fst (calculate_beatability self r opp)) \<and>
   beatability_score (fst (calculate_beatability self r opp)) \<le> 1 \<and>
   (\<forall>rep. generate_scouting_report self saudi_name cat = Inr rep \<longrightarrow>
      (\<forall>ar \<in> set (scouting_reports rep). \<forall>t \<in> set (scouting_targets ar).
         0 \<le> beatability_score t \<and> beatability_score t \<le> 1))"
  using report_scores_range [of self saudi_name cat]
  by (simp add: beatability_score_eq [symmetric] beatability_score_range)

theorem beatability_score_clamped_sum_witness:
  "\<exists>rep. generate_scouting_report scenario_b None None = Inr rep \<and>
     map (\<lambda>ar. map beatability_score (scouting_targets ar)) (scouting_reports rep) = [[0.85, 0.1]] \<and>
     (\<forall>ar \<in> set (scouting_reports rep). \<forall>t \<in> set (scouting_targets ar).
         0 \<le> beatability_score t \<and> beatability_score t \<le> 1)"
  using beatability_score_clamped_sum [of scenario_b ali_b smith_b None None]
  by (simp add: report_b targets_b)

text \<open>
  Claim C4. With \<open>S\<close> the names that the reference athlete has beaten and the candidate
  has lost to, the first part of \<^verbatim>\<open>calculate_beatability\<close> adds 0.3 times the size
  of \<open>S\<close> to the running score and appends one line per member of \<open>S\<close>, each member
  once; these lines open the reasoning of the result and no later line is of this kind.
  When \<open>S\<close> has a single member the part adds 0.3 and the one line names that member.
\<close>

theorem shared_loss_contribution:
  "shared_losses_part self r opp (sc, rs) =
     (sc + 0.3 * real (card (shared_set self r opp)),
      rs @ map (\<lambda>l. LostTo l (name r)) (shared_list self r opp)) \<and>
   distinct (shared_list self r opp) \<and>
   set (shared_list self r opp) = shared_set self r opp \<and>
   length (shared_list self r opp) = card (shared_set self r opp) \<and>
   (\<exists>rest. reasoning (fst (calculate_beatability self r opp)) =
             map (\<lambda>l. LostTo l (name r)) (shared_list self r opp) @ rest \<and>
           (\<forall>l s. LostTo l s \<notin> set rest)) \<and>
   beatability_score (fst (calculate_beatability self r opp)) =
     min (0.3 * real (card (shared_set self r opp)) +
          (win_rate_signal r opp + recent_form_signal opp + experience_signal r opp +
           close_losses_signal opp)) 1 \<and>
   (\<forall>x. shared_set self r opp = {x} \<longrightarrow>
        shared_losses_part self r opp (0, []) = (0.3, [LostTo x (name r)]))"
proof -
  have single: "shared_losses_part self r opp (0, []) = (0.3, [LostTo x (name r)])"
    if "shared_set self r opp = {x}" for x
  proof -
    from that have "set (shared_list self r opp) = {x}" "length (shared_list self r opp) = 1"
      by (simp_all add: shared_list_set shared_list_length)
    then have "shared_list self r opp = [x]"
      by (cases "shared_list self r opp") auto
    with that show ?thesis
      by (simp add: shared_losses_part_eq shared_loss_signal_def)
  qed
  have rest: "\<exists>rest. reasoning (fst (calculate_beatability self r opp)) =
             map (\<lambda>l. LostTo l (name r)) (shared_list self r opp) @ rest \<and>
           (\<forall>l s. LostTo l s \<notin> set rest)"
    by (simp add: calculate_beatability_eq)
  show ?thesis
    using single rest
    by (simp add: shared_losses_part_eq shared_loss_signal_def shared_list_distinct
        shared_list_set shared_list_length beatability_score_eq add.assoc)
qed

theorem shared_loss_contribution_witness:
  "shared_set scenario_b ali_b smith_b = {''OMAR''} \<and>
   shared_losses_part scenario_b ali_b smith_b (0, []) = (0.3, [LostTo ''OMAR'' ''ALI''])"
proof -
  have 1: "shared_set scenario_b ali_b smith_b = {''OMAR''}"
    by (rule scenario_b_shared_set)
  from shared_loss_contribution [of scenario_b ali_b smith_b 0 "[]"]
  have "shared_set scenario_b ali_b smith_b = {''OMAR''} \<longrightarrow>
        shared_losses_part scenario_b ali_b smith_b (0, []) =
          (0.3, [LostTo ''OMAR'' (name ali_b)])"
    by blast
  with 1 show ?thesis by (simp add: names_b)
qed





section \<open>Category leaderboards\<close>


































section \<open>The loss-chain trace\<close>

lemma map_filter_append: "List.map_filter f (xs @ ys) = List.map_filter f xs @ List.map_filter f ys"
  by (simp add: List.map_filter_def)

lemma map_filter_concat:
  "List.map_filter f (concat xss) = concat (map (List.map_filter f) xss)"
  by (induction xss) (simp_all add: map_filter_append List.map_filter_simps)

lemma map_filter_second_map:
  "List.map_filter second_of (map (\<lambda>s. SecondBeater s (g s)) xs) = xs"
  by (induction xs) (simp_all add: List.map_filter_simps)

lemma map_filter_beater_map:
  "List.map_filter beater_of (map (\<lambda>s. SecondBeater s (g s)) xs) = []"
  by (induction xs) (simp_all add: List.map_filter_simps)

lemma beater_lines_beaters: "listed_beaters (beater_lines self depth b) = [b]"
  by (simp add: listed_beaters_def beater_lines_def List.map_filter_simps Let_def
      map_filter_beater_map)

lemma beater_lines_second:
  "listed_second (beater_lines self depth b) =
     (if depth > 1 then take 3 (beaters_of self b) else [])"
  by (simp add: listed_second_def beater_lines_def List.map_filter_simps Let_def
      map_filter_second_map beaters_of_def)

lemma print_beaters:
  "listed_beaters (print_loss_chains self n depth) = beaters_of self n"
proof -
  have "concat (map (\<lambda>b. listed_beaters (beater_lines self depth b)) xs) = xs" for xs
    by (induction xs) (simp_all add: beater_lines_beaters)
  then have "concat (map (List.map_filter beater_of \<circ> beater_lines self depth) xs) = xs" for xs
    by (simp add: listed_beaters_def comp_def)
  then show ?thesis
    by (simp add: print_loss_chains_def Let_def listed_beaters_def List.map_filter_simps
        Dlist.null_def map_filter_concat beaters_of_def)
qed

lemma print_second:
  "listed_second (print_loss_chains self n depth) =
     concat (map (\<lambda>b. if depth > 1 then take 3 (beaters_of self b) else []) (beaters_of self n))"
proof -
  have "List.map_filter second_of \<circ> beater_lines self depth =
        (\<lambda>b. if depth > 1 then take 3 (beaters_of self b) else [])"
    using beater_lines_second [of self depth] by (auto simp: listed_second_def fun_eq_iff)
  then show ?thesis
    by (simp add: print_loss_chains_def Let_def listed_second_def List.map_filter_simps
        Dlist.null_def map_filter_concat beaters_of_def)
qed

lemma length_concat_take:
  "length (concat (map (\<lambda>b. take 3 (f b)) xs)) \<le> 3 * length xs"
  by (induction xs) auto

text \<open>
  Claim C9, as amended. At depth 2 the trace of an athlete lists every athlete who beat
  them, each once. Under each beater it lists the first three, in the order of the set,
  of those who beat that beater, and no one else: every one of them when there are at most
  three. An athlete without recorded losses gets the heading and the line that says so.
\<close>

theorem loss_chain_trace:
  "listed_beaters (print_loss_chains self n 2) = beaters_of self n \<and>
   listed_second (print_loss_chains self n 2) =
     concat (map (\<lambda>b. take 3 (beaters_of self b)) (beaters_of self n)) \<and>
   (\<forall>b \<in> set (beaters_of self n).
      Beater b (country_of self b) \<in> set (print_loss_chains self n 2) \<and>
      (\<forall>s \<in> set (take 3 (beaters_of self b)).
         SecondBeater s (country_of self s) \<in> set (print_loss_chains self n 2)) \<and>
      (length (beaters_of self b) \<le> 3 \<longrightarrow>
         set (beaters_of self b) \<subseteq> set (listed_second (print_loss_chains self n 2)))) \<and>
   length (listed_second (print_loss_chains self n 2)) \<le> 3 * length (beaters_of self n) \<and>
   (beaters_of self n = [] \<longrightarrow>
      print_loss_chains self n 2 = [Heading n, NoLosses n] \<and>
      render (NoLosses n) = ''  No recorded losses for '' @ n)"
proof -
  let ?out = "print_loss_chains self n 2"
  have lines: "set (beater_lines self 2 b) \<subseteq> set ?out" if "b \<in> set (beaters_of self n)" for b
    using that
    by (auto simp: print_loss_chains_def Let_def Dlist.null_def beaters_of_def)
  have 1: "Beater b (country_of self b) \<in> set ?out" if "b \<in> set (beaters_of self n)" for b
    using lines [OF that] by (auto simp: beater_lines_def)
  have 2: "SecondBeater s (country_of self s) \<in> set ?out"
    if "b \<in> set (beaters_of self n)" "s \<in> set (take 3 (beaters_of self b))" for b s
    using lines [OF that(1)] that(2) by (auto simp: beater_lines_def beaters_of_def Let_def)
  have 3: "set (beaters_of self b) \<subseteq> set (listed_second ?out)"
    if "b \<in> set (beaters_of self n)" "length (beaters_of self b) \<le> 3" for b
    using that by (auto simp: print_second)
  have 4: "length (listed_second ?out) \<le> 3 * length (beaters_of self n)"
    by (simp add: print_second length_concat_take)
  have 5: "print_loss_chains self n 2 = [Heading n, NoLosses n]" if "beaters_of self n = []"
    using that by (simp add: print_loss_chains_def Let_def Dlist.null_def beaters_of_def)
  show ?thesis
    using 1 2 3 4 5 by (simp add: print_beaters print_second render_def)
qed

lemma chain_loss_graph:
  "loss_graph chain_state =
     [''X'' \<mapsto> Dlist.insert ''B'' Dlist.empty,
      ''B'' \<mapsto> Dlist.insert ''S'' (Dlist.insert ''R'' (Dlist.insert ''Q''
                 (Dlist.insert ''P'' Dlist.empty))),
      ''S'' \<mapsto> Dlist.insert ''T'' Dlist.empty]"
  by (simp add: chain_state_def accept_result_def update_records_loss_graph graph_add_def
      init_def simple_result_def)

lemma chain_beaters:
  "beaters_of chain_state ''X'' = [''B'']"
  "beaters_of chain_state ''B'' = [''S'', ''R'', ''Q'', ''P'']"
  "beaters_of chain_state ''P'' = []"
  "beaters_of chain_state ''S'' = [''T'']"
  by (simp_all add: beaters_of_def chain_loss_graph dd_get_def)

theorem loss_chain_trace_witness:
  "''S'' \<in> set (beaters_of chain_state ''B'') \<and>
   Beater ''S'' (country_of chain_state ''S'') \<in> set (print_loss_chains chain_state ''B'' 2) \<and>
   ''T'' \<in> set (take 3 (beaters_of chain_state ''S'')) \<and>
   SecondBeater ''T'' (country_of chain_state ''T'') \<in> set (print_loss_chains chain_state ''B'' 2) \<and>
   length (beaters_of chain_state ''S'') \<le> 3 \<and>
   set (beaters_of chain_state ''S'') \<subseteq> set (listed_second (print_loss_chains chain_state ''B'' 2)) \<and>
   beaters_of chain_state ''P'' = [] \<and>
   print_loss_chains chain_state ''P'' 2 = [Heading ''P'', NoLosses ''P'']"
proof -
  have 1: "''S'' \<in> set (beaters_of chain_state ''B'')"
    and 2: "''T'' \<in> set (take 3 (beaters_of chain_state ''S''))"
    and 3: "beaters_of chain_state ''P'' = []"
    and 4: "length (beaters_of chain_state ''S'') \<le> 3"
    by (simp_all add: chain_beaters)
  note T = loss_chain_trace [of chain_state "''B''"]
  from T 1 have a: "Beater ''S'' (country_of chain_state ''S'') \<in> set (print_loss_chains chain_state ''B'' 2)"
    by blast
  from T 1 2 have b: "SecondBeater ''T'' (country_of chain_state ''T'') \<in> set (print_loss_chains chain_state ''B'' 2)"
    by blast
  from T 1 4 have c: "set (beaters_of chain_state ''S'') \<subseteq> set (listed_second (print_loss_chains chain_state ''B'' 2))"
    by blast
  from loss_chain_trace [of chain_state "''P''"] 3
  have d: "print_loss_chains chain_state ''P'' 2 = [Heading ''P'', NoLosses ''P'']"
    by blast
  from 1 2 3 4 a b c d show ?thesis by blast
qed

text \<open>
  The claim that every beater of a beater is listed fails when there are more than
  three: B lost to P, Q, R and S, and the trace of X lists three of them under B.
\<close>

theorem loss_chain_omits_a_beater:
  "''P'' \<in> set (beaters_of chain_state ''B'') \<and> ''B'' \<in> set (beaters_of chain_state ''X'') \<and>
   listed_second (print_loss_chains chain_state ''X'' 2) = [''S'', ''R'', ''Q''] \<and>
   \<not> set (beaters_of chain_state ''B'') \<subseteq> set (listed_second (print_loss_chains chain_state ''X'' 2))"
  by (simp add: print_second chain_beaters)

end
